theory Spec2Isabelle
  imports Complex_Main
begin

section \<open>Schema contracts (schemas/agent\_schema.py)\<close>

text \<open>
  The pydantic models are records. A Python \<open>str\<close> is a \<open>string\<close> whose elements stand
  for the code points that \<open>len\<close> and pydantic's \<open>max_length\<close> both count; a \<open>float\<close>
  score is a \<open>real\<close> (the bounds \<open>ge\<close>/\<open>le\<close> are plain comparisons); an \<open>int\<close> is an
  \<open>int\<close>; \<open>Optional[t]\<close> is \<open>t option\<close>. Every \<open>Field\<close> constraint of a model is a
  conjunct of its \<open>valid_\<close> predicate: an instance built by pydantic (by the agent's
  output validation, or by calling the constructor) satisfies it.
\<close>

datatype level = high | medium | low

record TargetAudience =
  name :: string
  pain_points :: "string list"
  demographics :: "string list"
  preferred_platforms :: "string list"
  content_preferences :: "string list"
  engagement_patterns :: "string list"

record CompanyProfile =
  company_id :: string
  company_name :: string
  industry :: string
  target_audience :: TargetAudience
  content_themes :: "string list"
  competitor_domains :: "string list"
  business_objectives :: "string list"
  brand_voice :: string
  content_preferences :: "string list"
  posting_frequency_target :: int
  seo_keywords :: "string list"
  budget_constraints :: "string option"
  content_restrictions :: "string list"

definition valid_CompanyProfile :: "CompanyProfile \<Rightarrow> bool" where
  "valid_CompanyProfile p =
     (1 \<le> posting_frequency_target p \<and> posting_frequency_target p \<le> 50)"

subsection \<open>Agent 1: trend research models\<close>

record TrendingTopic =
  topic :: string
  trend_score :: real
  source :: string
  relevance_reason :: string
  content_angle :: string
  business_relevance_score :: real
  audience_interest_score :: real
  content_opportunity_score :: real
  trend_momentum_score :: real
  recommended_platforms :: "string list"
  target_keywords :: "string list"
  competitor_coverage :: bool
  urgency_level :: level
  trend_lifespan_estimate :: string

definition valid_TrendingTopic :: "TrendingTopic \<Rightarrow> bool" where
  "valid_TrendingTopic t =
     (0 \<le> trend_score t \<and> trend_score t \<le> 100 \<and>
      0 \<le> business_relevance_score t \<and> business_relevance_score t \<le> 40 \<and>
      0 \<le> audience_interest_score t \<and> audience_interest_score t \<le> 30 \<and>
      0 \<le> content_opportunity_score t \<and> content_opportunity_score t \<le> 20 \<and>
      0 \<le> trend_momentum_score t \<and> trend_momentum_score t \<le> 10)"

text \<open>The sum of the four sub-scores of the scoring breakdown.\<close>

definition subscore_sum :: "TrendingTopic \<Rightarrow> real" where
  "subscore_sum t =
     business_relevance_score t + audience_interest_score t +
     content_opportunity_score t + trend_momentum_score t"

record TrendResearchOutput =
  trending_topics :: "TrendingTopic list"
  research_summary :: string
  total_topics_found :: int
  total_topics_qualifying :: int
  research_date :: string
  research_timeframe :: string
  top_keywords :: "string list"
  industry_insights :: "string list"
  competitive_gaps :: "string list"
  seasonal_considerations :: "string list"

definition valid_TrendResearchOutput :: "TrendResearchOutput \<Rightarrow> bool" where
  "valid_TrendResearchOutput r =
     (list_all valid_TrendingTopic (trending_topics r) \<and>
      0 \<le> total_topics_found r \<and> 0 \<le> total_topics_qualifying r)"

subsection \<open>Agent 2: content strategy models\<close>

record WeeklyTheme =
  theme_name :: string
  focus_area :: string
  key_message :: string
  target_pain_points :: "string list"
  supporting_themes :: "string list"

record ContentMix =
  educational_percentage :: real
  industry_insights_percentage :: real
  company_product_percentage :: real
  engagement_community_percentage :: real

definition valid_ContentMix :: "ContentMix \<Rightarrow> bool" where
  "valid_ContentMix m =
     (0 \<le> educational_percentage m \<and> educational_percentage m \<le> 100 \<and>
      0 \<le> industry_insights_percentage m \<and> industry_insights_percentage m \<le> 100 \<and>
      0 \<le> company_product_percentage m \<and> company_product_percentage m \<le> 100 \<and>
      0 \<le> engagement_community_percentage m \<and> engagement_community_percentage m \<le> 100)"

text \<open>\<open>ContentMix.validate_total\<close>: a method of the model, not a pydantic validator.\<close>

definition validate_total :: "ContentMix \<Rightarrow> bool" where
  "validate_total m =
     (let total = educational_percentage m + industry_insights_percentage m +
                  company_product_percentage m + engagement_community_percentage m
      in \<bar>total - 100\<bar> < 0.1)"

record RecommendedContentPiece =
  topic :: string
  priority_score :: real
  content_type :: string
  platform :: string
  secondary_platforms :: "string list"
  business_impact_score :: real
  audience_engagement_score :: real
  competitive_advantage_score :: real
  resource_efficiency_score :: real
  estimated_effort_hours :: real
  target_keywords :: "string list"
  related_trends :: "string list"
  success_probability :: real

definition valid_RecommendedContentPiece :: "RecommendedContentPiece \<Rightarrow> bool" where
  "valid_RecommendedContentPiece c =
     (0 \<le> priority_score c \<and> priority_score c \<le> 100 \<and>
      0 \<le> business_impact_score c \<and> business_impact_score c \<le> 35 \<and>
      0 \<le> audience_engagement_score c \<and> audience_engagement_score c \<le> 25 \<and>
      0 \<le> competitive_advantage_score c \<and> competitive_advantage_score c \<le> 20 \<and>
      0 \<le> resource_efficiency_score c \<and> resource_efficiency_score c \<le> 20 \<and>
      0 \<le> estimated_effort_hours c \<and>
      0 \<le> success_probability c \<and> success_probability c \<le> 100)"

record ContentStrategy =
  weekly_theme :: WeeklyTheme
  content_mix :: ContentMix
  priority_topics :: "string list"
  target_audience_segments :: "string list"
  competitive_differentiation :: string
  content_calendar_notes :: "string list"

definition valid_ContentStrategy :: "ContentStrategy \<Rightarrow> bool" where
  "valid_ContentStrategy c = valid_ContentMix (content_mix c)"

record ContentStrategyOutput =
  content_strategy :: ContentStrategy
  recommended_content_pieces :: "RecommendedContentPiece list"
  strategy_summary :: string
  weekly_focus :: string
  success_metrics :: "string list"
  risk_mitigation :: "string list"
  resource_requirements :: "string list"
  timeline_considerations :: "string list"

definition valid_ContentStrategyOutput :: "ContentStrategyOutput \<Rightarrow> bool" where
  "valid_ContentStrategyOutput c =
     (valid_ContentStrategy (content_strategy c) \<and>
      list_all valid_RecommendedContentPiece (recommended_content_pieces c))"

subsection \<open>Agent 3: brief generation models\<close>

record ContentStructure =
  hook :: string
  main_points :: "string list"
  supporting_details :: "string list"
  conclusion :: string
  call_to_action :: string
  content_flow :: string

record SEOOptimization =
  primary_keyword :: string
  secondary_keywords :: "string list"
  meta_description :: string
  title_variations :: "string list"
  target_search_intent :: string
  internal_link_opportunities :: "string list"
  featured_snippet_optimization :: string

definition valid_SEOOptimization :: "SEOOptimization \<Rightarrow> bool" where
  "valid_SEOOptimization s = (length (meta_description s) \<le> 160)"

record PlatformSpecifications =
  optimal_length_words :: int
  optimal_length_characters :: "int option"
  best_posting_time :: string
  hashtags :: "string list"
  visual_requirements :: "string list"
  engagement_tactics :: "string list"
  format_specifications :: "string list"
  cross_promotion_opportunities :: "string list"

definition opt_ge0 :: "int option \<Rightarrow> bool" where
  "opt_ge0 v = (case v of None \<Rightarrow> True | Some n \<Rightarrow> 0 \<le> n)"

definition valid_PlatformSpecifications :: "PlatformSpecifications \<Rightarrow> bool" where
  "valid_PlatformSpecifications p =
     (0 \<le> optimal_length_words p \<and> opt_ge0 (optimal_length_characters p))"

record BrandAlignment =
  tone :: string
  voice_guidelines :: "string list"
  key_messages :: "string list"
  brand_values_to_highlight :: "string list"
  messaging_restrictions :: "string list"
  brand_personality_elements :: "string list"

record SuccessMetrics =
  primary_kpi :: string
  target_engagement_rate :: "real option"
  target_reach :: "int option"
  target_clicks :: "int option"
  target_leads :: "int option"
  target_shares :: "int option"
  measurement_timeframe :: string
  benchmark_comparison :: string

definition valid_SuccessMetrics :: "SuccessMetrics \<Rightarrow> bool" where
  "valid_SuccessMetrics m =
     ((case target_engagement_rate m of None \<Rightarrow> True | Some r \<Rightarrow> 0 \<le> r \<and> r \<le> 100) \<and>
      opt_ge0 (target_reach m) \<and> opt_ge0 (target_clicks m) \<and>
      opt_ge0 (target_leads m) \<and> opt_ge0 (target_shares m))"

record ExecutionNotes =
  time_estimate_hours :: real
  difficulty_level :: string
  required_resources :: "string list"
  dependencies :: "string list"
  review_checkpoints :: "string list"
  quality_criteria :: "string list"
  potential_challenges :: "string list"

definition valid_ExecutionNotes :: "ExecutionNotes \<Rightarrow> bool" where
  "valid_ExecutionNotes n = (0 \<le> time_estimate_hours n)"

record ContentBrief =
  brief_id :: string
  title :: string
  final_title_options :: "string list"
  objective :: string
  target_audience_segment :: string
  content_type :: string
  platform :: string
  content_structure :: ContentStructure
  seo_optimization :: SEOOptimization
  platform_specifications :: PlatformSpecifications
  brand_alignment :: BrandAlignment
  success_metrics :: SuccessMetrics
  execution_notes :: ExecutionNotes
  created_date :: string
  priority_level :: level
  deadline :: "string option"
  approval_workflow :: "string list"

definition valid_ContentBrief :: "ContentBrief \<Rightarrow> bool" where
  "valid_ContentBrief b =
     (valid_SEOOptimization (seo_optimization b) \<and>
      valid_PlatformSpecifications (platform_specifications b) \<and>
      valid_SuccessMetrics (ContentBrief.success_metrics b) \<and>
      valid_ExecutionNotes (execution_notes b))"

record BriefGenerationOutput =
  content_briefs :: "ContentBrief list"
  total_briefs_generated :: int
  generation_date :: string
  strategy_alignment_score :: real
  estimated_total_hours :: real
  resource_summary :: "string list"
  timeline_overview :: string

definition valid_BriefGenerationOutput :: "BriefGenerationOutput \<Rightarrow> bool" where
  "valid_BriefGenerationOutput b =
     (list_all valid_ContentBrief (content_briefs b) \<and>
      0 \<le> total_briefs_generated b \<and>
      0 \<le> strategy_alignment_score b \<and> strategy_alignment_score b \<le> 100 \<and>
      0 \<le> estimated_total_hours b)"

section \<open>Post-processing of briefs (workflow/initial\_graph.py)\<close>

text \<open>
  \<open>truncate_meta_descriptions\<close> walks \<open>output.content_briefs\<close> and overwrites, in place,
  each \<open>meta_description\<close> longer than 160 by \<open>meta_description[:157] + "..."\<close>. Both
  \<open>hasattr\<close> tests hold for a \<open>BriefGenerationOutput\<close>, and a \<open>SEOOptimization\<close> instance
  is truthy, so the only test left is the length test. The loop body has become
  \<open>truncate_brief\<close>, the loop \<open>truncate_loop\<close>. A brief that the list holds twice is
  rewritten once by the in-place update and is fixed by the second visit, as here.
\<close>

definition truncate_brief :: "ContentBrief \<Rightarrow> ContentBrief" where
  "truncate_brief brief =
     (if length (meta_description (seo_optimization brief)) > 160
      then brief\<lparr>seo_optimization :=
             (seo_optimization brief)\<lparr>meta_description :=
                take 157 (meta_description (seo_optimization brief)) @ ''...''\<rparr>\<rparr>
      else brief)"

primrec truncate_loop :: "ContentBrief list \<Rightarrow> ContentBrief list" where
  "truncate_loop [] = []"
| "truncate_loop (brief # rest) = truncate_brief brief # truncate_loop rest"

definition truncate_meta_descriptions :: "BriefGenerationOutput \<Rightarrow> BriefGenerationOutput" where
  "truncate_meta_descriptions output =
     output\<lparr>content_briefs := truncate_loop (content_briefs output)\<rparr>"

section \<open>Agents (agents/*.py)\<close>

text \<open>
  An \<open>Agent\<close> is the configuration its constructor call fixes: the tools, the declared
  \<open>output_type\<close>, the system prompt and, where the call gives one, \<open>output_retries\<close>
  (\<open>None\<close> when the call leaves it to the agent library's default). The model is the
  same module constant in the three files and is left out. The system prompts
  are f-strings over the profile only; the record keeps the profile they are rendered
  from instead of the rendered text.
\<close>

datatype output_type =
  TrendResearchOutput_type | ContentStrategyOutput_type | BriefGenerationOutput_type

record Agent =
  tools :: "string list"
  output_type :: output_type
  system_prompt_profile :: CompanyProfile
  output_retries :: "nat option"

definition create_trend_research_agent :: "CompanyProfile \<Rightarrow> Agent" where
  "create_trend_research_agent profile =
     \<lparr>tools = [''web_search_tool'', ''news_search_tool'', ''reddit_search_tool''],
      output_type = TrendResearchOutput_type,
      system_prompt_profile = profile,
      output_retries = None\<rparr>"

definition create_content_strategy_agent :: "CompanyProfile \<Rightarrow> Agent" where
  "create_content_strategy_agent profile =
     \<lparr>tools = [],
      output_type = ContentStrategyOutput_type,
      system_prompt_profile = profile,
      output_retries = None\<rparr>"

definition create_brief_generation_agent :: "CompanyProfile \<Rightarrow> Agent" where
  "create_brief_generation_agent profile =
     \<lparr>tools = [],
      output_type = BriefGenerationOutput_type,
      system_prompt_profile = profile,
      output_retries = Some 3\<rparr>"

text \<open>
  \<open>await agent.run(prompt)\<close> is the external generative call. It either raises (the
  string is \<open>str(e)\<close>) or returns a result whose \<open>.output\<close> the node inspects. The nodes
  test that value with \<open>isinstance\<close>, so every kind of value they distinguish is a
  constructor: an instance of one of the three output models, a \<open>dict\<close> (kept as what
  \<open>BriefGenerationOutput(**d)\<close> does with it: raise with a message, or build an
  instance), or a value of any other type (kept as the text of \<open>type(v)\<close>).
\<close>

datatype agent_output =
    TrendOut TrendResearchOutput
  | StrategyOut ContentStrategyOutput
  | BriefOut BriefGenerationOutput
  | DictOut "string + BriefGenerationOutput"
  | OtherOut string

datatype agent_result = Raised string | Returned agent_output

type_synonym agent_run = "Agent \<Rightarrow> string \<Rightarrow> agent_result"

definition type_repr :: "agent_output \<Rightarrow> string" where
  "type_repr v =
     (case v of
        TrendOut _ \<Rightarrow> ''<class 'schemas.agent_schema.TrendResearchOutput'>''
      | StrategyOut _ \<Rightarrow> ''<class 'schemas.agent_schema.ContentStrategyOutput'>''
      | BriefOut _ \<Rightarrow> ''<class 'schemas.agent_schema.BriefGenerationOutput'>''
      | DictOut _ \<Rightarrow> ''<class 'dict'>''
      | OtherOut r \<Rightarrow> r)"

subsection \<open>Output validation and retries\<close>

text \<open>
  Whether a value conforms to an agent's declared \<open>output_type\<close>: it is an instance of
  that model and satisfies the model's \<open>Field\<close> constraints.
\<close>

definition conforms_to :: "output_type \<Rightarrow> agent_output \<Rightarrow> bool" where
  "conforms_to ty v =
     (case ty of
        TrendResearchOutput_type \<Rightarrow>
          (case v of TrendOut t \<Rightarrow> valid_TrendResearchOutput t | _ \<Rightarrow> False)
      | ContentStrategyOutput_type \<Rightarrow>
          (case v of StrategyOut c \<Rightarrow> valid_ContentStrategyOutput c | _ \<Rightarrow> False)
      | BriefGenerationOutput_type \<Rightarrow>
          (case v of BriefOut b \<Rightarrow> valid_BriefGenerationOutput b | _ \<Rightarrow> False))"

text \<open>
  The retry budget in force for an agent: its own \<open>output_retries\<close> where the constructor
  call gives one, and otherwise the agent library's default, which the repository does
  not fix and which is therefore a parameter.
\<close>

definition retry_budget :: "nat \<Rightarrow> Agent \<Rightarrow> nat" where
  "retry_budget library_default agent =
     (case output_retries agent of None \<Rightarrow> library_default | Some n \<Rightarrow> n)"

text \<open>
  Modelled from the spec: the validation-retry loop around a generative call belongs to
  the agent library and is not in the repository. The spec's contract (4.1, 6) is that a
  response which fails to deserialize into the declared schema is a retryable condition,
  that the call is retried up to a fixed budget, that exhausting the budget turns into a
  stage-fatal error, and that a transport error is stage-fatal at once. \<open>responses\<close> are
  the answers of the generative model to the successive attempts.
\<close>

datatype response = TransportError string | Candidate agent_output

fun run_with_retries :: "(agent_output \<Rightarrow> bool) \<Rightarrow> nat \<Rightarrow> response list \<Rightarrow> agent_result" where
  "run_with_retries conforms retries [] = Raised ''no response''"
| "run_with_retries conforms retries (TransportError e # rest) = Raised e"
| "run_with_retries conforms retries (Candidate v # rest) =
     (if conforms v then Returned v
      else (case retries of
              0 \<Rightarrow> Raised ''Exceeded maximum retries for output validation''
            | Suc k \<Rightarrow> run_with_retries conforms k rest))"

definition agent_run_with :: "nat \<Rightarrow> response list \<Rightarrow> agent_run" where
  "agent_run_with library_default responses agent prompt =
     run_with_retries (conforms_to (output_type agent))
       (retry_budget library_default agent) responses"

section \<open>Workflow state and stage executors (workflow/initial\_graph.py)\<close>

text \<open>
  \<open>ContentWorkflowState\<close> is a \<open>TypedDict\<close> with seven required keys; the caller
  (\<open>run_content_workflow\<close>) sets all seven, the optional ones to \<open>None\<close>. The record has
  every key, so \<open>state["trends"]\<close> and \<open>state.get("trends")\<close> read the same value.
\<close>

record ContentWorkflowState =
  company_id :: string
  profile :: CompanyProfile
  trends :: "TrendResearchOutput option"
  strategy :: "ContentStrategyOutput option"
  briefs :: "BriefGenerationOutput option"
  error :: "string option"
  current_step :: string

subsection \<open>String plumbing\<close>

fun join :: "string \<Rightarrow> string list \<Rightarrow> string" where
  "join sep [] = []"
| "join sep [x] = x"
| "join sep (x # y # ys) = x @ sep @ join sep (y # ys)"

definition digit_char :: "nat \<Rightarrow> char" where
  "digit_char d = ''0123456789'' ! d"

fun str_nat :: "nat \<Rightarrow> string" where
  "str_nat n = (if n < 10 then [digit_char n] else str_nat (n div 10) @ [digit_char (n mod 10)])"

definition str_int :: "int \<Rightarrow> string" where
  "str_int i = (if i < 0 then ''-'' @ str_nat (nat (- i)) else str_nat (nat i))"

definition nl :: string where
  "nl = [CHR 0x0A]"

definition indent :: string where
  "indent = ''        ''"

subsection \<open>Trend research\<close>

definition research_query :: "CompanyProfile \<Rightarrow> string" where
  "research_query company_info =
     industry company_info @ '' trends for '' @ name (target_audience company_info)"

text \<open>
  Where a source variable has the name of a state key (\<open>trends\<close>, \<open>strategy\<close>) it is
  written with a prime. The body of each node's \<open>try\<close> block is a function into \<open>string + state\<close>: \<open>Inl\<close> is
  \<open>str(e)\<close> of the exception raised inside the block, \<open>Inr\<close> the state once the block
  has run to its end. Every statement that can raise comes before the first assignment
  to \<open>state\<close>, so an exception finds the state as the node received it; the \<open>except\<close>
  clause then writes \<open>state["error"]\<close> and the node returns the state.
\<close>

definition trend_research_try :: "agent_run \<Rightarrow> ContentWorkflowState \<Rightarrow> string + ContentWorkflowState" where
  "trend_research_try run state =
     (let company_info = profile state;
          agent = create_trend_research_agent company_info
      in case run agent (research_query company_info) of
           Raised e \<Rightarrow> Inl e
         | Returned trends_data \<Rightarrow>
             (case trends_data of
                TrendOut t \<Rightarrow>
                  Inr (state\<lparr>trends := Some t, current_step := ''trend_research_done''\<rparr>)
              | _ \<Rightarrow> Inl (''Expected TrendResearchOutput, got '' @ type_repr trends_data)))"

definition trend_research_node :: "agent_run \<Rightarrow> ContentWorkflowState \<Rightarrow> ContentWorkflowState" where
  "trend_research_node run state =
     (case trend_research_try run state of
        Inr state' \<Rightarrow> state'
      | Inl e \<Rightarrow> state\<lparr>error := Some (''Trend Research Failed: '' @ e)\<rparr>)"

subsection \<open>Content strategy\<close>

definition available_trends :: "TrendResearchOutput option \<Rightarrow> string" where
  "available_trends trends' =
     (case trends' of
        None \<Rightarrow> ''No specific trends found''
      | Some t \<Rightarrow>
          (if trending_topics t \<noteq> []
           then join '', '' (map TrendingTopic.topic (trending_topics t))
           else ''No specific trends found''))"

definition strategy_input :: "CompanyProfile \<Rightarrow> TrendResearchOutput option \<Rightarrow> string" where
  "strategy_input company_info trends' =
     nl @ indent @ ''Company: '' @ company_name company_info @
     nl @ indent @ ''Industry: '' @ industry company_info @
     nl @ indent @ ''Business Objectives: '' @ join '', '' (business_objectives company_info) @
     nl @
     nl @ indent @ ''Available Trends:'' @
     nl @ indent @ available_trends trends' @
     nl @
     nl @ indent @ ''Create a weekly content strategy addressing audience pain points: '' @
       join '', '' (pain_points (target_audience company_info)) @
     nl @ indent"

definition content_strategy_try :: "agent_run \<Rightarrow> ContentWorkflowState \<Rightarrow> string + ContentWorkflowState" where
  "content_strategy_try run state =
     (let company_info = profile state;
          trends' = trends state;
          agent = create_content_strategy_agent company_info
      in case run agent (strategy_input company_info trends') of
           Raised e \<Rightarrow> Inl e
         | Returned strategy_data \<Rightarrow>
             (case strategy_data of
                StrategyOut c \<Rightarrow>
                  Inr (state\<lparr>strategy := Some c, current_step := ''content_strategy_done''\<rparr>)
              | _ \<Rightarrow> Inl (''Expected ContentStrategyOutput, got '' @ type_repr strategy_data)))"

definition content_strategy_node :: "agent_run \<Rightarrow> ContentWorkflowState \<Rightarrow> ContentWorkflowState" where
  "content_strategy_node run state =
     (case content_strategy_try run state of
        Inr state' \<Rightarrow> state'
      | Inl e \<Rightarrow> state\<lparr>error := Some (''Content Strategy Failed: '' @ e)\<rparr>)"

subsection \<open>Brief generation\<close>

definition strategy_focus :: "ContentStrategyOutput option \<Rightarrow> string" where
  "strategy_focus strategy' =
     (case strategy' of None \<Rightarrow> ''General content strategy'' | Some c \<Rightarrow> weekly_focus c)"

definition available_topics :: "ContentStrategyOutput option \<Rightarrow> string" where
  "available_topics strategy' =
     (case strategy' of
        None \<Rightarrow> ''General content topics''
      | Some c \<Rightarrow>
          (if recommended_content_pieces c \<noteq> []
           then join '', '' (map RecommendedContentPiece.topic (recommended_content_pieces c))
           else ''General content topics''))"

definition trending_keywords :: "TrendResearchOutput option \<Rightarrow> string" where
  "trending_keywords trends' =
     (case trends' of
        None \<Rightarrow> ''General industry keywords''
      | Some t \<Rightarrow>
          (if top_keywords t \<noteq> []
           then join '', '' (take 5 (top_keywords t))
           else ''General industry keywords''))"

definition brief_input ::
  "CompanyProfile \<Rightarrow> ContentStrategyOutput option \<Rightarrow> TrendResearchOutput option \<Rightarrow> string" where
  "brief_input company_info strategy' trends' =
     nl @ indent @ ''Company: '' @ company_name company_info @
     nl @ indent @ ''Target Audience: '' @ name (target_audience company_info) @
     nl @ indent @ ''Brand Voice: '' @ brand_voice company_info @
     nl @
     nl @ indent @ ''Strategy Focus: '' @ strategy_focus strategy' @
     nl @
     nl @ indent @ ''Available Topics:'' @
     nl @ indent @ available_topics strategy' @
     nl @
     nl @ indent @ ''Trending Keywords:'' @
     nl @ indent @ trending_keywords trends' @
     nl @
     nl @ indent @ ''Generate '' @ str_int (posting_frequency_target company_info) @
       '' detailed content briefs for this week.'' @
     nl @ indent"

text \<open>The "safety" step: a \<open>dict\<close> output is passed to the model's constructor.\<close>

definition parse_if_dict :: "agent_output \<Rightarrow> string + agent_output" where
  "parse_if_dict briefs_data =
     (case briefs_data of
        DictOut d \<Rightarrow>
          (case d of
             Inl e \<Rightarrow> Inl (''Failed to parse briefs_data dict: '' @ e)
           | Inr b \<Rightarrow> Inr (BriefOut b))
      | _ \<Rightarrow> Inr briefs_data)"

definition brief_generation_try :: "agent_run \<Rightarrow> ContentWorkflowState \<Rightarrow> string + ContentWorkflowState" where
  "brief_generation_try run state =
     (let company_info = profile state;
          strategy' = strategy state;
          trends' = trends state;
          agent = create_brief_generation_agent company_info
      in case run agent (brief_input company_info strategy' trends') of
           Raised e \<Rightarrow> Inl e
         | Returned briefs_data \<Rightarrow>
             (case parse_if_dict briefs_data of
                Inl e \<Rightarrow> Inl e
              | Inr briefs_data' \<Rightarrow>
                  (case briefs_data' of
                     BriefOut b \<Rightarrow>
                       Inr (state\<lparr>briefs := Some (truncate_meta_descriptions b),
                                  current_step := ''brief_generation_done''\<rparr>)
                   | _ \<Rightarrow> Inl (''Expected BriefGenerationOutput, got '' @ type_repr briefs_data'))))"

definition brief_generation_node :: "agent_run \<Rightarrow> ContentWorkflowState \<Rightarrow> ContentWorkflowState" where
  "brief_generation_node run state =
     (case brief_generation_try run state of
        Inr state' \<Rightarrow> state'
      | Inl e \<Rightarrow> state\<lparr>error := Some (''Brief Generation Failed: '' @ e)\<rparr>)"

section \<open>The graph and its caller\<close>

text \<open>
  \<open>run_content_workflow\<close> (routes/agent\_routes.py) builds the state a run starts from.
\<close>

definition initial_state :: "CompanyProfile \<Rightarrow> ContentWorkflowState" where
  "initial_state profile' =
     \<lparr>company_id = CompanyProfile.company_id profile',
      profile = profile',
      trends = None,
      strategy = None,
      briefs = None,
      error = None,
      current_step = ''start''\<rparr>"

text \<open>
  \<open>content_graph_builder\<close>: three \<open>add_node\<close> calls and four \<open>add_edge\<close> calls, in the
  order of the source. \<open>START\<close> and \<open>END\<close> are the graph library's two reserved names.
\<close>

definition START :: string where
  "START = ''__start__''"

definition END :: string where
  "END = ''__end__''"

definition graph_nodes ::
  "(string \<times> (agent_run \<Rightarrow> ContentWorkflowState \<Rightarrow> ContentWorkflowState)) list" where
  "graph_nodes =
     [(''trend_research'', trend_research_node),
      (''content_strategy'', content_strategy_node),
      (''brief_generation'', brief_generation_node)]"

definition graph_edges :: "(string \<times> string) list" where
  "graph_edges =
     [(START, ''trend_research''),
      (''trend_research'', ''content_strategy''),
      (''content_strategy'', ''brief_generation''),
      (''brief_generation'', END)]"

text \<open>
  Modelled from the spec: the executor of the compiled graph (\<open>content_graph.ainvoke\<close>)
  belongs to the graph library and is not in the repository. The spec's transition rule
  is that the orchestrator invokes stage N+1 unconditionally after stage N's executor
  returns. \<open>ainvoke_from\<close> does that over the edges above: from the current name it
  follows the outgoing edge, stops at \<open>END\<close>, and otherwise runs the node of that name on
  the state the previous node returned. It never looks at the state to choose the next
  node. The first component of the result lists the nodes invoked, in order; the fuel
  bounds the number of steps, and \<open>None\<close> is a run that did not reach \<open>END\<close>.
\<close>

fun ainvoke_from ::
  "nat \<Rightarrow> agent_run \<Rightarrow> string \<Rightarrow> string list \<Rightarrow> ContentWorkflowState \<Rightarrow>
   (string list \<times> ContentWorkflowState) option" where
  "ainvoke_from 0 run cur invoked state = None"
| "ainvoke_from (Suc fuel) run cur invoked state =
     (case map_of graph_edges cur of
        None \<Rightarrow> None
      | Some nxt \<Rightarrow>
          (if nxt = END then Some (invoked, state)
           else (case map_of graph_nodes nxt of
                   None \<Rightarrow> None
                 | Some node \<Rightarrow> ainvoke_from fuel run nxt (invoked @ [nxt]) (node run state))))"

definition ainvoke ::
  "nat \<Rightarrow> agent_run \<Rightarrow> ContentWorkflowState \<Rightarrow> (string list \<times> ContentWorkflowState) option" where
  "ainvoke fuel run state = ainvoke_from fuel run START [] state"

text \<open>The order of the step labels, as the spec lists them.\<close>

definition step_labels :: "string list" where
  "step_labels =
     [''start'', ''trend_research_done'', ''content_strategy_done'', ''brief_generation_done'']"

fun index_of :: "string \<Rightarrow> string list \<Rightarrow> nat" where
  "index_of x [] = 0"
| "index_of x (y # ys) = (if x = y then 0 else Suc (index_of x ys))"

definition step_rank :: "string \<Rightarrow> nat" where
  "step_rank label = index_of label step_labels"

section \<open>Concrete inputs\<close>

definition example_audience :: TargetAudience where
  "example_audience =
     \<lparr>name = ''Developers'',
      pain_points = [''scaling AI apps''],
      demographics = [''25-40 engineers''],
      preferred_platforms = [''linkedin'', ''twitter''],
      TargetAudience.content_preferences = [''blog_post'', ''linkedin_post''],
      engagement_patterns = [''weekdays morning'']\<rparr>"

definition example_profile :: CompanyProfile where
  "example_profile =
     \<lparr>CompanyProfile.company_id = ''123'',
      company_name = ''TestCo'',
      industry = ''AI'',
      target_audience = example_audience,
      content_themes = [''AI trends'', ''Automation''],
      competitor_domains = [''openai.com'', ''anthropic.com''],
      business_objectives = [''thought_leadership'', ''engagement''],
      brand_voice = ''professional but approachable'',
      CompanyProfile.content_preferences = [''blog_post'', ''twitter_post''],
      posting_frequency_target = 3,
      seo_keywords = [''AI automation'', ''LLM workflows''],
      budget_constraints = None,
      content_restrictions = []\<rparr>"

definition example_topic :: "real \<Rightarrow> real \<Rightarrow> real \<Rightarrow> real \<Rightarrow> real \<Rightarrow> TrendingTopic" where
  "example_topic score b a c m =
     \<lparr>TrendingTopic.topic = ''AI agents'',
      trend_score = score,
      source = ''news_outlets'',
      relevance_reason = ''core market'',
      content_angle = ''how-to'',
      business_relevance_score = b,
      audience_interest_score = a,
      content_opportunity_score = c,
      trend_momentum_score = m,
      recommended_platforms = [''linkedin''],
      TrendingTopic.target_keywords = [''agents''],
      competitor_coverage = False,
      urgency_level = medium,
      trend_lifespan_estimate = ''6 months''\<rparr>"

definition example_trends :: "TrendingTopic list \<Rightarrow> TrendResearchOutput" where
  "example_trends topics =
     \<lparr>trending_topics = topics,
      research_summary = ''summary'',
      total_topics_found = int (length topics),
      total_topics_qualifying = int (length topics),
      research_date = ''2025-01-01'',
      research_timeframe = ''7d'',
      top_keywords = [''agents'', ''llm''],
      industry_insights = [],
      competitive_gaps = [],
      seasonal_considerations = []\<rparr>"

definition example_mix :: "real \<Rightarrow> real \<Rightarrow> real \<Rightarrow> real \<Rightarrow> ContentMix" where
  "example_mix e i c g =
     \<lparr>educational_percentage = e,
      industry_insights_percentage = i,
      company_product_percentage = c,
      engagement_community_percentage = g\<rparr>"

definition example_strategy :: "ContentMix \<Rightarrow> ContentStrategyOutput" where
  "example_strategy mix =
     \<lparr>content_strategy =
        \<lparr>weekly_theme =
           \<lparr>theme_name = ''Agents week'', focus_area = ''agents'', key_message = ''ship'',
            target_pain_points = [''scaling AI apps''], supporting_themes = []\<rparr>,
         content_mix = mix,
         priority_topics = [''AI agents''],
         target_audience_segments = [''Developers''],
         competitive_differentiation = ''depth'',
         content_calendar_notes = []\<rparr>,
      recommended_content_pieces = [],
      strategy_summary = ''summary'',
      weekly_focus = ''agents'',
      ContentStrategyOutput.success_metrics = [],
      risk_mitigation = [],
      resource_requirements = [],
      timeline_considerations = []\<rparr>"

definition example_brief :: "string \<Rightarrow> ContentBrief" where
  "example_brief md =
     \<lparr>brief_id = ''b1'',
      title = ''Agents'',
      final_title_options = [],
      objective = ''leads'',
      target_audience_segment = ''Developers'',
      ContentBrief.content_type = ''blog_post'',
      ContentBrief.platform = ''linkedin'',
      content_structure =
        \<lparr>hook = ''h'', main_points = [], supporting_details = [], conclusion = ''c'',
         call_to_action = ''a'', content_flow = ''f''\<rparr>,
      seo_optimization =
        \<lparr>primary_keyword = ''agents'', secondary_keywords = [], meta_description = md,
         title_variations = [], target_search_intent = ''informational'',
         internal_link_opportunities = [], featured_snippet_optimization = ''list''\<rparr>,
      platform_specifications =
        \<lparr>optimal_length_words = 800, optimal_length_characters = None,
         best_posting_time = ''9am'', hashtags = [], visual_requirements = [],
         engagement_tactics = [], format_specifications = [],
         cross_promotion_opportunities = []\<rparr>,
      brand_alignment =
        \<lparr>tone = ''friendly'', voice_guidelines = [], key_messages = [],
         brand_values_to_highlight = [], messaging_restrictions = [],
         brand_personality_elements = []\<rparr>,
      ContentBrief.success_metrics =
        \<lparr>primary_kpi = ''engagement'', target_engagement_rate = None, target_reach = None,
         target_clicks = None, target_leads = None, target_shares = None,
         measurement_timeframe = ''7d'', benchmark_comparison = ''last week''\<rparr>,
      execution_notes =
        \<lparr>time_estimate_hours = 2, difficulty_level = ''easy'', required_resources = [],
         dependencies = [], review_checkpoints = [], quality_criteria = [],
         potential_challenges = []\<rparr>,
      created_date = ''2025-01-01'',
      priority_level = high,
      deadline = None,
      approval_workflow = []\<rparr>"

definition example_briefs :: "string list \<Rightarrow> BriefGenerationOutput" where
  "example_briefs mds =
     \<lparr>content_briefs = map example_brief mds,
      total_briefs_generated = int (length mds),
      generation_date = ''2025-01-01'',
      strategy_alignment_score = 90,
      estimated_total_hours = 6,
      resource_summary = [],
      timeline_overview = ''one week''\<rparr>"

text \<open>A generative call whose transport fails on every call.\<close>

definition failing_run :: agent_run where
  "failing_run agent prompt = Raised ''connection reset''"

text \<open>A generative call that answers each agent with an instance of its output type.\<close>

definition stub_run ::
  "TrendResearchOutput \<Rightarrow> ContentStrategyOutput \<Rightarrow> BriefGenerationOutput \<Rightarrow> agent_run" where
  "stub_run t c b agent prompt =
     (case output_type agent of
        TrendResearchOutput_type \<Rightarrow> Returned (TrendOut t)
      | ContentStrategyOutput_type \<Rightarrow> Returned (StrategyOut c)
      | BriefGenerationOutput_type \<Rightarrow> Returned (BriefOut b))"

text \<open>A generative call whose trend research fails and whose other two calls answer.\<close>

definition trend_failing_run :: "ContentStrategyOutput \<Rightarrow> BriefGenerationOutput \<Rightarrow> agent_run" where
  "trend_failing_run c b agent prompt =
     (case output_type agent of
        TrendResearchOutput_type \<Rightarrow> Raised ''connection reset''
      | ContentStrategyOutput_type \<Rightarrow> Returned (StrategyOut c)
      | BriefGenerationOutput_type \<Rightarrow> Returned (BriefOut b))"

text \<open>
  Three answers of the generative model to successive attempts of one call: two that
  violate the declared schema, then one that conforms.
\<close>

definition trend_responses :: "response list" where
  "trend_responses =
     [Candidate (TrendOut (example_trends [example_topic 150 40 30 20 10])),
      Candidate (TrendOut (example_trends [example_topic 150 40 30 20 10])),
      Candidate (TrendOut (example_trends [example_topic 100 40 30 20 10]))]"

definition brief_responses :: "response list" where
  "brief_responses =
     [Candidate (BriefOut (example_briefs [replicate 200 CHR ''a''])),
      Candidate (BriefOut (example_briefs [replicate 200 CHR ''a''])),
      Candidate (BriefOut (example_briefs [''short'']))]"

section \<open>Truncation of meta descriptions\<close>

lemma truncate_loop_length: "length (truncate_loop bs) = length bs"
  by (induction bs) simp_all

lemma truncate_loop_nth: "i < length bs \<Longrightarrow> truncate_loop bs ! i = truncate_brief (bs ! i)"
  by (induction bs arbitrary: i) (simp_all add: nth_Cons split: nat.splits)

lemma truncate_brief_long:
  "160 < length (meta_description (seo_optimization b)) \<Longrightarrow>
   meta_description (seo_optimization (truncate_brief b)) =
     take 157 (meta_description (seo_optimization b)) @ ''...''"
  by (simp add: truncate_brief_def)

lemma truncate_brief_short:
  "length (meta_description (seo_optimization b)) \<le> 160 \<Longrightarrow> truncate_brief b = b"
  by (simp add: truncate_brief_def)

lemma truncate_brief_bound:
  "length (meta_description (seo_optimization (truncate_brief b))) \<le> 160"
  by (simp add: truncate_brief_def)

lemma example_brief_md: "meta_description (seo_optimization (example_brief md)) = md"
  by (simp add: example_brief_def)

text \<open>
  Claim C5. After \<open>truncate_meta_descriptions\<close> the output has the same briefs in the
  same positions; every brief's \<open>meta_description\<close> has length at most 160; one that was
  longer than 160 is its first 157 characters followed by \<open>...\<close>, of length exactly 160;
  a brief whose \<open>meta_description\<close> has length at most 160 (160 included) is unchanged.
\<close>

theorem truncate_meta_descriptions_spec:
  fixes out :: BriefGenerationOutput
  defines "out' \<equiv> truncate_meta_descriptions out"
  shows "length (content_briefs out') = length (content_briefs out) \<and>
    (\<forall>i < length (content_briefs out).
       length (meta_description (seo_optimization (content_briefs out' ! i))) \<le> 160 \<and>
       (160 < length (meta_description (seo_optimization (content_briefs out ! i))) \<longrightarrow>
          meta_description (seo_optimization (content_briefs out' ! i)) =
            take 157 (meta_description (seo_optimization (content_briefs out ! i))) @ ''...'' \<and>
          length (meta_description (seo_optimization (content_briefs out' ! i))) = 160) \<and>
       (length (meta_description (seo_optimization (content_briefs out ! i))) \<le> 160 \<longrightarrow>
          content_briefs out' ! i = content_briefs out ! i))"
proof -
  have briefs: "content_briefs out' = truncate_loop (content_briefs out)"
    by (simp add: out'_def truncate_meta_descriptions_def)
  show ?thesis
  proof (intro conjI allI impI)
    show "length (content_briefs out') = length (content_briefs out)"
      by (simp add: briefs truncate_loop_length)
  next
    fix i assume i: "i < length (content_briefs out)"
    show "length (meta_description (seo_optimization (content_briefs out' ! i))) \<le> 160"
      by (simp add: briefs truncate_loop_nth [OF i] truncate_brief_bound)
  next
    fix i assume i: "i < length (content_briefs out)"
      and long: "160 < length (meta_description (seo_optimization (content_briefs out ! i)))"
    show "meta_description (seo_optimization (content_briefs out' ! i)) =
            take 157 (meta_description (seo_optimization (content_briefs out ! i))) @ ''...''"
      by (simp add: briefs truncate_loop_nth [OF i] truncate_brief_long [OF long])
    then show "length (meta_description (seo_optimization (content_briefs out' ! i))) = 160"
      using long by simp
  next
    fix i assume i: "i < length (content_briefs out)"
      and short: "length (meta_description (seo_optimization (content_briefs out ! i))) \<le> 160"
    show "content_briefs out' ! i = content_briefs out ! i"
      by (simp add: briefs truncate_loop_nth [OF i] truncate_brief_short [OF short])
  qed
qed

theorem truncate_meta_descriptions_spec_witness:
  "meta_description (seo_optimization (content_briefs (truncate_meta_descriptions
      (example_briefs [replicate 160 CHR ''a'', replicate 161 CHR ''a'', replicate 500 CHR ''a''])) ! Suc 0))
     = replicate 157 CHR ''a'' @ ''...'' \<and>
   content_briefs (truncate_meta_descriptions
      (example_briefs [replicate 160 CHR ''a'', replicate 161 CHR ''a'', replicate 500 CHR ''a''])) ! 0
     = example_brief (replicate 160 CHR ''a'') \<and>
   length (meta_description (seo_optimization (content_briefs (truncate_meta_descriptions
      (example_briefs [replicate 160 CHR ''a'', replicate 161 CHR ''a'', replicate 500 CHR ''a''])) ! 2)))
     = 160"
proof -
  let ?out = "example_briefs [replicate 160 CHR ''a'', replicate 161 CHR ''a'', replicate 500 CHR ''a'']"
  have len: "length (content_briefs ?out) = 3"
    by (simp add: example_briefs_def)
  have b0: "content_briefs ?out ! 0 = example_brief (replicate 160 CHR ''a'')"
    and b1: "content_briefs ?out ! Suc 0 = example_brief (replicate 161 CHR ''a'')"
    and b2: "content_briefs ?out ! 2 = example_brief (replicate 500 CHR ''a'')"
    by (simp_all add: example_briefs_def)
  note spec = truncate_meta_descriptions_spec [of ?out, unfolded len, THEN conjunct2, rule_format]
  have i0: "(0::nat) < 3" and i1: "Suc 0 < 3" and i2: "(2::nat) < 3" by simp_all
  show ?thesis
    using spec [OF i0] spec [OF i1] spec [OF i2]
    by (simp add: b0 b1 b2 example_brief_md)
qed

lemma truncate_loop_id:
  "list_all (\<lambda>b. length (meta_description (seo_optimization b)) \<le> 160) bs \<Longrightarrow>
   truncate_loop bs = bs"
  by (induction bs) (simp_all add: truncate_brief_short)

lemma valid_briefs_bounded:
  "list_all valid_ContentBrief bs \<Longrightarrow>
   list_all (\<lambda>b. length (meta_description (seo_optimization b)) \<le> 160) bs"
  by (induction bs) (simp_all add: valid_ContentBrief_def valid_SEOOptimization_def)

lemma example_briefs_valid:
  "list_all (\<lambda>md. length md \<le> 160) mds \<Longrightarrow> valid_BriefGenerationOutput (example_briefs mds)"
  by (induction mds)
     (simp_all add: valid_BriefGenerationOutput_def example_briefs_def valid_ContentBrief_def
        valid_SEOOptimization_def valid_PlatformSpecifications_def valid_SuccessMetrics_def
        valid_ExecutionNotes_def opt_ge0_def example_brief_def)

text \<open>
  Claim C10. A \<open>BriefGenerationOutput\<close> that satisfies its schema has every
  \<open>meta_description\<close> of length at most 160 (the \<open>max_length=160\<close> of
  \<open>SEOOptimization\<close>), so no brief takes the truncating branch and
  \<open>truncate_meta_descriptions\<close> returns its argument unchanged.
\<close>

theorem truncate_identity_on_valid:
  assumes "valid_BriefGenerationOutput out"
  shows "list_all (\<lambda>b. length (meta_description (seo_optimization b)) \<le> 160) (content_briefs out) \<and>
         list_all (\<lambda>b. truncate_brief b = b) (content_briefs out) \<and>
         truncate_meta_descriptions out = out"
proof -
  from assms have "list_all valid_ContentBrief (content_briefs out)"
    by (simp add: valid_BriefGenerationOutput_def)
  then have bounded:
    "list_all (\<lambda>b. length (meta_description (seo_optimization b)) \<le> 160) (content_briefs out)"
    by (rule valid_briefs_bounded)
  then have same: "list_all (\<lambda>b. truncate_brief b = b) (content_briefs out)"
    by (simp add: list_all_iff truncate_brief_short)
  from bounded have "truncate_loop (content_briefs out) = content_briefs out"
    by (rule truncate_loop_id)
  then have "truncate_meta_descriptions out = out"
    by (simp add: truncate_meta_descriptions_def)
  with bounded same show ?thesis by simp
qed

theorem truncate_identity_on_valid_witness:
  "valid_BriefGenerationOutput (example_briefs [replicate 160 CHR ''a'', ''short'']) \<and>
   truncate_meta_descriptions (example_briefs [replicate 160 CHR ''a'', ''short'']) =
     example_briefs [replicate 160 CHR ''a'', ''short'']"
proof -
  have v: "valid_BriefGenerationOutput (example_briefs [replicate 160 CHR ''a'', ''short''])"
    by (rule example_briefs_valid) simp
  show ?thesis
    using v truncate_identity_on_valid [OF v] by simp
qed

section \<open>Stage executors: what a node returns\<close>

text \<open>
  A try block that ends normally has set the stage's own output field and its own step
  label and nothing else; one that raises leaves the state to the \<open>except\<close> clause.
\<close>

lemma trend_research_try_Inr:
  "trend_research_try run s = Inr s' \<Longrightarrow>
   \<exists>t. s' = s\<lparr>trends := Some t, current_step := ''trend_research_done''\<rparr>"
  by (auto simp: trend_research_try_def Let_def split: agent_result.splits agent_output.splits)

lemma content_strategy_try_Inr:
  "content_strategy_try run s = Inr s' \<Longrightarrow>
   \<exists>c. s' = s\<lparr>strategy := Some c, current_step := ''content_strategy_done''\<rparr>"
  by (auto simp: content_strategy_try_def Let_def split: agent_result.splits agent_output.splits)

lemma brief_generation_try_Inr:
  "brief_generation_try run s = Inr s' \<Longrightarrow>
   \<exists>b. s' = s\<lparr>briefs := Some b, current_step := ''brief_generation_done''\<rparr>"
  by (auto simp: brief_generation_try_def Let_def
           split: agent_result.splits agent_output.splits sum.splits)

lemma trend_research_node_Inl:
  "trend_research_try run s = Inl e \<Longrightarrow>
   trend_research_node run s = s\<lparr>error := Some (''Trend Research Failed: '' @ e)\<rparr>"
  by (simp add: trend_research_node_def)

lemma content_strategy_node_Inl:
  "content_strategy_try run s = Inl e \<Longrightarrow>
   content_strategy_node run s = s\<lparr>error := Some (''Content Strategy Failed: '' @ e)\<rparr>"
  by (simp add: content_strategy_node_def)

lemma brief_generation_node_Inl:
  "brief_generation_try run s = Inl e \<Longrightarrow>
   brief_generation_node run s = s\<lparr>error := Some (''Brief Generation Failed: '' @ e)\<rparr>"
  by (simp add: brief_generation_node_def)

lemma trend_research_node_Inr:
  "trend_research_try run s = Inr s' \<Longrightarrow> trend_research_node run s = s'"
  by (simp add: trend_research_node_def)

lemma content_strategy_node_Inr:
  "content_strategy_try run s = Inr s' \<Longrightarrow> content_strategy_node run s = s'"
  by (simp add: content_strategy_node_def)

lemma brief_generation_node_Inr:
  "brief_generation_try run s = Inr s' \<Longrightarrow> brief_generation_node run s = s'"
  by (simp add: brief_generation_node_def)

text \<open>When a try block raises: the call raised, or its output has the wrong type, or the
  \<open>dict\<close> it returned does not parse.\<close>

lemma trend_research_try_Inl_iff:
  "trend_research_try run s = Inl e \<longleftrightarrow>
     (run (create_trend_research_agent (profile s)) (research_query (profile s)) = Raised e \<or>
      (\<exists>d. run (create_trend_research_agent (profile s)) (research_query (profile s)) = Returned d \<and>
           (\<forall>t. d \<noteq> TrendOut t) \<and> e = ''Expected TrendResearchOutput, got '' @ type_repr d))"
  by (auto simp: trend_research_try_def Let_def split: agent_result.splits agent_output.splits)

lemma content_strategy_try_Inl_iff:
  "content_strategy_try run s = Inl e \<longleftrightarrow>
     (run (create_content_strategy_agent (profile s)) (strategy_input (profile s) (trends s)) =
        Raised e \<or>
      (\<exists>d. run (create_content_strategy_agent (profile s))
                (strategy_input (profile s) (trends s)) = Returned d \<and>
           (\<forall>c. d \<noteq> StrategyOut c) \<and>
           e = ''Expected ContentStrategyOutput, got '' @ type_repr d))"
  by (auto simp: content_strategy_try_def Let_def split: agent_result.splits agent_output.splits)

lemma brief_generation_try_Inl_iff:
  "brief_generation_try run s = Inl e \<longleftrightarrow>
     (run (create_brief_generation_agent (profile s))
          (brief_input (profile s) (strategy s) (trends s)) = Raised e \<or>
      (\<exists>m. run (create_brief_generation_agent (profile s))
                (brief_input (profile s) (strategy s) (trends s)) = Returned (DictOut (Inl m)) \<and>
           e = ''Failed to parse briefs_data dict: '' @ m) \<or>
      (\<exists>d. run (create_brief_generation_agent (profile s))
                (brief_input (profile s) (strategy s) (trends s)) = Returned d \<and>
           (\<forall>b. d \<noteq> BriefOut b) \<and> (\<forall>x. d \<noteq> DictOut x) \<and>
           e = ''Expected BriefGenerationOutput, got '' @ type_repr d))"
  by (auto simp: brief_generation_try_def parse_if_dict_def Let_def
           split: agent_result.splits agent_output.splits sum.splits)

lemma trend_research_error:
  "error (trend_research_node run s) =
     (case trend_research_try run s of
        Inl e \<Rightarrow> Some (''Trend Research Failed: '' @ e) | Inr s' \<Rightarrow> error s)"
  by (auto simp: trend_research_node_def split: sum.splits dest: trend_research_try_Inr)

lemma content_strategy_error:
  "error (content_strategy_node run s) =
     (case content_strategy_try run s of
        Inl e \<Rightarrow> Some (''Content Strategy Failed: '' @ e) | Inr s' \<Rightarrow> error s)"
  by (auto simp: content_strategy_node_def split: sum.splits dest: content_strategy_try_Inr)

lemma brief_generation_error:
  "error (brief_generation_node run s) =
     (case brief_generation_try run s of
        Inl e \<Rightarrow> Some (''Brief Generation Failed: '' @ e) | Inr s' \<Rightarrow> error s)"
  by (auto simp: brief_generation_node_def split: sum.splits dest: brief_generation_try_Inr)

lemma trend_research_step:
  "current_step (trend_research_node run s) =
     (if isl (trend_research_try run s) then current_step s else ''trend_research_done'')"
  by (auto simp: trend_research_node_def split: sum.splits dest: trend_research_try_Inr)

lemma content_strategy_step:
  "current_step (content_strategy_node run s) =
     (if isl (content_strategy_try run s) then current_step s else ''content_strategy_done'')"
  by (auto simp: content_strategy_node_def split: sum.splits dest: content_strategy_try_Inr)

lemma brief_generation_step:
  "current_step (brief_generation_node run s) =
     (if isl (brief_generation_try run s) then current_step s else ''brief_generation_done'')"
  by (auto simp: brief_generation_node_def split: sum.splits dest: brief_generation_try_Inr)

lemma step_rank_values:
  "step_rank ''start'' = 0"
  "step_rank ''trend_research_done'' = 1"
  "step_rank ''content_strategy_done'' = 2"
  "step_rank ''brief_generation_done'' = 3"
  by (simp_all add: step_rank_def step_labels_def)

text \<open>The concrete generative calls, stage by stage.\<close>

lemma failing_run_trend: "trend_research_try failing_run s = Inl ''connection reset''"
  by (simp add: trend_research_try_def failing_run_def)

lemma failing_run_strategy: "content_strategy_try failing_run s = Inl ''connection reset''"
  by (simp add: content_strategy_try_def failing_run_def)

lemma failing_run_brief: "brief_generation_try failing_run s = Inl ''connection reset''"
  by (simp add: brief_generation_try_def failing_run_def)

lemma stub_run_strategy:
  "content_strategy_try (trend_failing_run c b) s =
     Inr (s\<lparr>strategy := Some c, current_step := ''content_strategy_done''\<rparr>)"
  by (simp add: content_strategy_try_def trend_failing_run_def create_content_strategy_agent_def)

lemma stub_run_brief:
  "brief_generation_try (trend_failing_run c b) s =
     Inr (s\<lparr>briefs := Some (truncate_meta_descriptions b),
            current_step := ''brief_generation_done''\<rparr>)"
  by (simp add: brief_generation_try_def trend_failing_run_def create_brief_generation_agent_def
        parse_if_dict_def)

lemma trend_failing_run_trend:
  "trend_research_try (trend_failing_run c b) s = Inl ''connection reset''"
  by (simp add: trend_research_try_def trend_failing_run_def create_trend_research_agent_def)

text \<open>A call that returns an instance of the stage's output type: the stage stores it.\<close>

lemma trend_research_node_returned:
  "run (create_trend_research_agent (profile s)) (research_query (profile s)) =
     Returned (TrendOut r) \<Longrightarrow>
   trend_research_node run s = s\<lparr>trends := Some r, current_step := ''trend_research_done''\<rparr>"
  by (simp add: trend_research_node_def trend_research_try_def)

lemma content_strategy_node_returned:
  "run (create_content_strategy_agent (profile s)) (strategy_input (profile s) (trends s)) =
     Returned (StrategyOut c) \<Longrightarrow>
   content_strategy_node run s = s\<lparr>strategy := Some c, current_step := ''content_strategy_done''\<rparr>"
  by (simp add: content_strategy_node_def content_strategy_try_def)

lemma brief_generation_node_returned:
  "run (create_brief_generation_agent (profile s))
       (brief_input (profile s) (strategy s) (trends s)) = Returned (BriefOut b) \<Longrightarrow>
   brief_generation_node run s =
     s\<lparr>briefs := Some (truncate_meta_descriptions b), current_step := ''brief_generation_done''\<rparr>"
  by (simp add: brief_generation_node_def brief_generation_try_def parse_if_dict_def)

text \<open>Facts about the concrete inputs.\<close>

lemma initial_state_fields:
  "trends (initial_state p) = None" "strategy (initial_state p) = None"
  "briefs (initial_state p) = None" "error (initial_state p) = None"
  "current_step (initial_state p) = ''start''" "profile (initial_state p) = p"
  by (simp_all add: initial_state_def)

lemma trend_failing_run_strategy_agent:
  "trend_failing_run c b (create_content_strategy_agent p) q = Returned (StrategyOut c)"
  by (simp add: trend_failing_run_def create_content_strategy_agent_def)

lemma trend_failing_run_brief_agent:
  "trend_failing_run c b (create_brief_generation_agent p) q = Returned (BriefOut b)"
  by (simp add: trend_failing_run_def create_brief_generation_agent_def)

lemma stub_run_trend_agent:
  "stub_run t c b (create_trend_research_agent p) q = Returned (TrendOut t)"
  by (simp add: stub_run_def create_trend_research_agent_def)

lemma stub_run_strategy_agent:
  "stub_run t c b (create_content_strategy_agent p) q = Returned (StrategyOut c)"
  by (simp add: stub_run_def create_content_strategy_agent_def)

lemma example_topic_valid:
  "valid_TrendingTopic (example_topic score b a c m) \<longleftrightarrow>
     0 \<le> score \<and> score \<le> 100 \<and> 0 \<le> b \<and> b \<le> 40 \<and> 0 \<le> a \<and> a \<le> 30 \<and>
     0 \<le> c \<and> c \<le> 20 \<and> 0 \<le> m \<and> m \<le> 10"
  by (simp add: valid_TrendingTopic_def example_topic_def)

lemma example_trends_valid:
  "valid_TrendResearchOutput (example_trends ts) \<longleftrightarrow> list_all valid_TrendingTopic ts"
  by (simp add: valid_TrendResearchOutput_def example_trends_def)

lemma example_topic_scores:
  "trend_score (example_topic score b a c m) = score"
  "subscore_sum (example_topic score b a c m) = b + a + c + m"
  by (simp_all add: example_topic_def subscore_sum_def)

lemma example_strategy_valid:
  "valid_ContentStrategyOutput (example_strategy mix) \<longleftrightarrow> valid_ContentMix mix"
  by (simp add: valid_ContentStrategyOutput_def valid_ContentStrategy_def example_strategy_def)

lemma example_briefs_valid_iff:
  "valid_BriefGenerationOutput (example_briefs mds) \<longleftrightarrow> list_all (\<lambda>md. length md \<le> 160) mds"
  by (induction mds)
     (simp_all add: valid_BriefGenerationOutput_def example_briefs_def valid_ContentBrief_def
        valid_SEOOptimization_def valid_PlatformSpecifications_def valid_SuccessMetrics_def
        valid_ExecutionNotes_def opt_ge0_def example_brief_def)

section \<open>The orchestrator\<close>

text \<open>
  Claim C1. With fuel for four steps or more, a run of the graph invokes exactly
  \<open>trend_research\<close>, \<open>content_strategy\<close>, \<open>brief_generation\<close>, in this order, whatever the
  generative calls answer and whatever state each node returns: the state handed to a
  node is the one the node before it returned, with or without a recorded error. In
  particular \<open>content_strategy\<close> is invoked on the state of a failed trend research.
\<close>

theorem graph_runs_all_stages:
  "ainvoke (Suc (Suc (Suc (Suc fuel)))) run s =
     Some ([''trend_research'', ''content_strategy'', ''brief_generation''],
           brief_generation_node run (content_strategy_node run (trend_research_node run s)))"
  by (simp add: ainvoke_def graph_edges_def graph_nodes_def START_def END_def)

theorem graph_runs_all_stages_witness:
  "ainvoke 4
     (trend_failing_run (example_strategy (example_mix 40 30 20 10)) (example_briefs [''short'']))
     (initial_state example_profile) =
   Some ([''trend_research'', ''content_strategy'', ''brief_generation''],
         (initial_state example_profile)
           \<lparr>strategy := Some (example_strategy (example_mix 40 30 20 10)),
            briefs := Some (truncate_meta_descriptions (example_briefs [''short''])),
            error := Some ''Trend Research Failed: connection reset'',
            current_step := ''brief_generation_done''\<rparr>)"
proof -
  let ?run = "trend_failing_run (example_strategy (example_mix 40 30 20 10)) (example_briefs [''short''])"
  have four: "(4::nat) = Suc (Suc (Suc (Suc 0)))" by simp
  have s1: "trend_research_node ?run (initial_state example_profile) =
      (initial_state example_profile)\<lparr>error := Some ''Trend Research Failed: connection reset''\<rparr>"
    by (simp add: trend_research_node_Inl trend_failing_run_trend)
  show ?thesis
    unfolding four graph_runs_all_stages [of 0 ?run "initial_state example_profile"] s1
    by (simp add: content_strategy_node_Inr stub_run_strategy brief_generation_node_Inr stub_run_brief)
qed

section \<open>Stage failures\<close>

text \<open>
  Claim C2. For each of the three stage executors: when the try block raises with cause
  \<open>e\<close>, the node returns the state it received with only \<open>error\<close> changed, to the
  stage's name followed by \<open>Failed:\<close> and the cause; in particular the stage's own output
  field is as it was (unset when it was unset). The node is a total function: nothing
  escapes to the caller.
\<close>

theorem stage_exception_recorded:
  "(trend_research_try run s = Inl e \<longrightarrow>
      trend_research_node run s = s\<lparr>error := Some (''Trend Research Failed: '' @ e)\<rparr> \<and>
      trends (trend_research_node run s) = trends s) \<and>
   (content_strategy_try run s = Inl e \<longrightarrow>
      content_strategy_node run s = s\<lparr>error := Some (''Content Strategy Failed: '' @ e)\<rparr> \<and>
      strategy (content_strategy_node run s) = strategy s) \<and>
   (brief_generation_try run s = Inl e \<longrightarrow>
      brief_generation_node run s = s\<lparr>error := Some (''Brief Generation Failed: '' @ e)\<rparr> \<and>
      briefs (brief_generation_node run s) = briefs s)"
  by (simp add: trend_research_node_Inl content_strategy_node_Inl brief_generation_node_Inl)

theorem stage_exception_recorded_witness:
  "trend_research_try failing_run (initial_state example_profile) = Inl ''connection reset'' \<and>
   error (trend_research_node failing_run (initial_state example_profile)) =
     Some ''Trend Research Failed: connection reset'' \<and>
   trends (trend_research_node failing_run (initial_state example_profile)) = None \<and>
   error (content_strategy_node failing_run (initial_state example_profile)) =
     Some ''Content Strategy Failed: connection reset'' \<and>
   strategy (content_strategy_node failing_run (initial_state example_profile)) = None \<and>
   error (brief_generation_node failing_run (initial_state example_profile)) =
     Some ''Brief Generation Failed: connection reset'' \<and>
   briefs (brief_generation_node failing_run (initial_state example_profile)) = None"
  using stage_exception_recorded [of failing_run "initial_state example_profile" "''connection reset''"]
  by (simp add: failing_run_trend failing_run_strategy failing_run_brief initial_state_def)

text \<open>
  Claim C3, as stated, fails: trend research and content strategy both fail on a
  transport error, and the second failure replaces the message of the first.
\<close>

theorem error_overwritten_counterexample:
  "error (trend_research_node failing_run (initial_state example_profile)) =
     Some ''Trend Research Failed: connection reset'' \<and>
   error (content_strategy_node failing_run
            (trend_research_node failing_run (initial_state example_profile))) =
     Some ''Content Strategy Failed: connection reset'' \<and>
   error (content_strategy_node failing_run
            (trend_research_node failing_run (initial_state example_profile))) \<noteq>
   error (trend_research_node failing_run (initial_state example_profile))"
  by (simp add: trend_research_node_Inl content_strategy_node_Inl
        failing_run_trend failing_run_strategy)

text \<open>
  Claim C3, amended. Each stage executor writes \<open>error\<close> exactly when its try block
  raises, and then to its own message, whatever \<open>error\<close> held before (the last failure
  of a run wins); a stage that succeeds leaves \<open>error\<close> as it was; so no stage resets a
  non-null \<open>error\<close> to null.
\<close>

theorem error_last_failure_wins:
  "error (trend_research_node run s) =
     (case trend_research_try run s of
        Inl e \<Rightarrow> Some (''Trend Research Failed: '' @ e) | Inr s' \<Rightarrow> error s) \<and>
   error (content_strategy_node run s) =
     (case content_strategy_try run s of
        Inl e \<Rightarrow> Some (''Content Strategy Failed: '' @ e) | Inr s' \<Rightarrow> error s) \<and>
   error (brief_generation_node run s) =
     (case brief_generation_try run s of
        Inl e \<Rightarrow> Some (''Brief Generation Failed: '' @ e) | Inr s' \<Rightarrow> error s) \<and>
   (error s \<noteq> None \<longrightarrow>
      error (trend_research_node run s) \<noteq> None \<and>
      error (content_strategy_node run s) \<noteq> None \<and>
      error (brief_generation_node run s) \<noteq> None)"
  by (simp add: trend_research_error content_strategy_error brief_generation_error
           split: sum.splits)

theorem error_last_failure_wins_witness:
  "error (trend_research_node failing_run (initial_state example_profile)) \<noteq> None \<and>
   error (content_strategy_node failing_run
            (trend_research_node failing_run (initial_state example_profile))) =
     Some ''Content Strategy Failed: connection reset'' \<and>
   error (brief_generation_node failing_run
            (trend_research_node failing_run (initial_state example_profile))) \<noteq> None"
  using error_last_failure_wins
          [of failing_run "trend_research_node failing_run (initial_state example_profile)"]
  by (simp add: failing_run_trend failing_run_strategy failing_run_brief trend_research_node_Inl)

section \<open>The step label\<close>

text \<open>
  Claim C4. In a run from \<open>current_step = start\<close>, each stage writes its own label when
  its try block ends normally and leaves \<open>current_step\<close> as it was when the block raises;
  the label never moves backwards in the order start, trend\_research\_done,
  content\_strategy\_done, brief\_generation\_done, and at the end it is one of the four.
\<close>

theorem current_step_monotone:
  fixes run :: agent_run and s :: ContentWorkflowState
  assumes start: "current_step s = ''start''"
  defines "s1 \<equiv> trend_research_node run s"
  defines "s2 \<equiv> content_strategy_node run s1"
  defines "s3 \<equiv> brief_generation_node run s2"
  shows "current_step s1 =
           (if isl (trend_research_try run s) then ''start'' else ''trend_research_done'') \<and>
         current_step s2 =
           (if isl (content_strategy_try run s1) then current_step s1
            else ''content_strategy_done'') \<and>
         current_step s3 =
           (if isl (brief_generation_try run s2) then current_step s2
            else ''brief_generation_done'') \<and>
         step_rank (current_step s) \<le> step_rank (current_step s1) \<and>
         step_rank (current_step s1) \<le> step_rank (current_step s2) \<and>
         step_rank (current_step s2) \<le> step_rank (current_step s3) \<and>
         current_step s3 \<in> set step_labels"
proof -
  have c1: "current_step s1 =
      (if isl (trend_research_try run s) then ''start'' else ''trend_research_done'')"
    by (simp add: s1_def trend_research_step start)
  have c2: "current_step s2 =
      (if isl (content_strategy_try run s1) then current_step s1 else ''content_strategy_done'')"
    by (simp add: s2_def content_strategy_step)
  have c3: "current_step s3 =
      (if isl (brief_generation_try run s2) then current_step s2 else ''brief_generation_done'')"
    by (simp add: s3_def brief_generation_step)
  have r1: "step_rank (current_step s1) \<le> 1"
    by (simp add: c1 step_rank_values)
  have r01: "step_rank (current_step s) \<le> step_rank (current_step s1)"
    by (simp add: start step_rank_values)
  have r2: "step_rank (current_step s1) \<le> step_rank (current_step s2) \<and>
            step_rank (current_step s2) \<le> 2"
    using r1 by (simp add: c2 step_rank_values)
  have r3: "step_rank (current_step s2) \<le> step_rank (current_step s3)"
    using r2 by (simp add: c3 step_rank_values)
  have mem: "current_step s3 \<in> set step_labels"
    by (simp add: c3 c2 c1 step_labels_def)
  from c1 c2 c3 r01 r2 r3 mem show ?thesis by simp
qed

theorem current_step_monotone_witness:
  "current_step (initial_state example_profile) = ''start'' \<and>
   current_step (trend_research_node
      (trend_failing_run (example_strategy (example_mix 40 30 20 10)) (example_briefs [''short'']))
      (initial_state example_profile)) = ''start'' \<and>
   current_step (content_strategy_node
      (trend_failing_run (example_strategy (example_mix 40 30 20 10)) (example_briefs [''short'']))
      (trend_research_node
        (trend_failing_run (example_strategy (example_mix 40 30 20 10)) (example_briefs [''short'']))
        (initial_state example_profile))) = ''content_strategy_done'' \<and>
   current_step (brief_generation_node
      (trend_failing_run (example_strategy (example_mix 40 30 20 10)) (example_briefs [''short'']))
      (content_strategy_node
        (trend_failing_run (example_strategy (example_mix 40 30 20 10)) (example_briefs [''short'']))
        (trend_research_node
          (trend_failing_run (example_strategy (example_mix 40 30 20 10)) (example_briefs [''short'']))
          (initial_state example_profile)))) = ''brief_generation_done''"
proof -
  have start: "current_step (initial_state example_profile) = ''start''"
    by (simp add: initial_state_def)
  show ?thesis
    using start current_step_monotone [OF start,
      of "trend_failing_run (example_strategy (example_mix 40 30 20 10)) (example_briefs [''short''])"]
    by (simp add: trend_failing_run_trend stub_run_strategy stub_run_brief)
qed

section \<open>Graceful degradation\<close>

lemma available_trends_absent:
  "(case tr of None \<Rightarrow> True | Some t \<Rightarrow> trending_topics t = []) \<Longrightarrow>
   available_trends tr = ''No specific trends found''"
  by (simp add: available_trends_def split: option.splits)

lemma available_topics_absent:
  "(case st of None \<Rightarrow> True | Some c \<Rightarrow> recommended_content_pieces c = []) \<Longrightarrow>
   available_topics st = ''General content topics''"
  by (simp add: available_topics_def split: option.splits)

lemma trending_keywords_absent:
  "(case tr of None \<Rightarrow> True | Some t \<Rightarrow> top_keywords t = []) \<Longrightarrow>
   trending_keywords tr = ''General industry keywords''"
  by (simp add: trending_keywords_def split: option.splits)

lemma strategy_focus_absent: "strategy_focus None = ''General content strategy''"
  by (simp add: strategy_focus_def)

lemma example_profile_fields:
  "company_name example_profile = ''TestCo''"
  "industry example_profile = ''AI''"
  "name (target_audience example_profile) = ''Developers''"
  "brand_voice example_profile = ''professional but approachable''"
  "business_objectives example_profile = [''thought_leadership'', ''engagement'']"
  "pain_points (target_audience example_profile) = [''scaling AI apps'']"
  "str_int (posting_frequency_target example_profile) = ''3''"
  by (simp_all add: example_profile_def example_audience_def str_int_def digit_char_def)

text \<open>
  Claim C9. When \<open>trends\<close> is unset or its \<open>trending_topics\<close> is empty, the content
  strategy stage builds its instruction with \<open>No specific trends found\<close> in the place of
  the topics, calls the agent with that instruction, and goes on: an answer of the right
  type is stored and the step label advanced. When \<open>strategy\<close> is unset the instruction
  the brief generation stage builds has \<open>General content strategy\<close> as the strategy focus
  and \<open>General content topics\<close> as the available topics; when \<open>trends\<close> is unset it has
  \<open>General industry keywords\<close> as the trending keywords; the stage calls the agent with
  that instruction and goes on in the same way. An empty list of recommended pieces or
  of top keywords is replaced like an unset field.
\<close>

theorem placeholder_substitution:
  "((case trends s of None \<Rightarrow> True | Some t \<Rightarrow> trending_topics t = []) \<longrightarrow>
      available_trends (trends s) = ''No specific trends found'' \<and>
      strategy_input (profile s) (trends s) =
        nl @ indent @ ''Company: '' @ company_name (profile s) @
        nl @ indent @ ''Industry: '' @ industry (profile s) @
        nl @ indent @ ''Business Objectives: '' @ join '', '' (business_objectives (profile s)) @
        nl @
        nl @ indent @ ''Available Trends:'' @
        nl @ indent @ ''No specific trends found'' @
        nl @
        nl @ indent @ ''Create a weekly content strategy addressing audience pain points: '' @
          join '', '' (pain_points (target_audience (profile s))) @
        nl @ indent) \<and>
   (\<forall>c. run (create_content_strategy_agent (profile s))
            (strategy_input (profile s) (trends s)) = Returned (StrategyOut c) \<longrightarrow>
        content_strategy_node run s =
          s\<lparr>strategy := Some c, current_step := ''content_strategy_done''\<rparr>) \<and>
   (strategy s = None \<longrightarrow>
      strategy_focus (strategy s) = ''General content strategy'' \<and>
      available_topics (strategy s) = ''General content topics'') \<and>
   (trends s = None \<longrightarrow> trending_keywords (trends s) = ''General industry keywords'') \<and>
   (\<forall>b. run (create_brief_generation_agent (profile s))
            (brief_input (profile s) (strategy s) (trends s)) = Returned (BriefOut b) \<longrightarrow>
        brief_generation_node run s =
          s\<lparr>briefs := Some (truncate_meta_descriptions b),
            current_step := ''brief_generation_done''\<rparr>) \<and>
   ((case trends s of None \<Rightarrow> True | Some t \<Rightarrow> trending_topics t = []) \<longrightarrow>
      (\<forall>c. run (create_content_strategy_agent (profile s))
             (nl @ indent @ ''Company: '' @ company_name (profile s) @
              nl @ indent @ ''Industry: '' @ industry (profile s) @
              nl @ indent @ ''Business Objectives: '' @
                join '', '' (business_objectives (profile s)) @
              nl @
              nl @ indent @ ''Available Trends:'' @
              nl @ indent @ ''No specific trends found'' @
              nl @
              nl @ indent @
                ''Create a weekly content strategy addressing audience pain points: '' @
                join '', '' (pain_points (target_audience (profile s))) @
              nl @ indent) = Returned (StrategyOut c) \<longrightarrow>
           content_strategy_node run s =
             s\<lparr>strategy := Some c, current_step := ''content_strategy_done''\<rparr>)) \<and>
   (strategy s = None \<longrightarrow>
      brief_input (profile s) (strategy s) (trends s) =
        nl @ indent @ ''Company: '' @ company_name (profile s) @
        nl @ indent @ ''Target Audience: '' @ name (target_audience (profile s)) @
        nl @ indent @ ''Brand Voice: '' @ brand_voice (profile s) @
        nl @
        nl @ indent @ ''Strategy Focus: '' @ ''General content strategy'' @
        nl @
        nl @ indent @ ''Available Topics:'' @
        nl @ indent @ ''General content topics'' @
        nl @
        nl @ indent @ ''Trending Keywords:'' @
        nl @ indent @ trending_keywords (trends s) @
        nl @
        nl @ indent @ ''Generate '' @ str_int (posting_frequency_target (profile s)) @
          '' detailed content briefs for this week.'' @
        nl @ indent) \<and>
   (trends s = None \<longrightarrow>
      brief_input (profile s) (strategy s) (trends s) =
        nl @ indent @ ''Company: '' @ company_name (profile s) @
        nl @ indent @ ''Target Audience: '' @ name (target_audience (profile s)) @
        nl @ indent @ ''Brand Voice: '' @ brand_voice (profile s) @
        nl @
        nl @ indent @ ''Strategy Focus: '' @ strategy_focus (strategy s) @
        nl @
        nl @ indent @ ''Available Topics:'' @
        nl @ indent @ available_topics (strategy s) @
        nl @
        nl @ indent @ ''Trending Keywords:'' @
        nl @ indent @ ''General industry keywords'' @
        nl @
        nl @ indent @ ''Generate '' @ str_int (posting_frequency_target (profile s)) @
          '' detailed content briefs for this week.'' @
        nl @ indent) \<and>
   (strategy s = None \<and> trends s = None \<longrightarrow>
      (\<forall>b. run (create_brief_generation_agent (profile s))
             (nl @ indent @ ''Company: '' @ company_name (profile s) @
              nl @ indent @ ''Target Audience: '' @ name (target_audience (profile s)) @
              nl @ indent @ ''Brand Voice: '' @ brand_voice (profile s) @
              nl @
              nl @ indent @ ''Strategy Focus: '' @ ''General content strategy'' @
              nl @
              nl @ indent @ ''Available Topics:'' @
              nl @ indent @ ''General content topics'' @
              nl @
              nl @ indent @ ''Trending Keywords:'' @
              nl @ indent @ ''General industry keywords'' @
              nl @
              nl @ indent @ ''Generate '' @ str_int (posting_frequency_target (profile s)) @
                '' detailed content briefs for this week.'' @
              nl @ indent) = Returned (BriefOut b) \<longrightarrow>
           brief_generation_node run s =
             s\<lparr>briefs := Some (truncate_meta_descriptions b),
               current_step := ''brief_generation_done''\<rparr>)) \<and>
   ((case strategy s of None \<Rightarrow> True | Some c \<Rightarrow> recommended_content_pieces c = []) \<longrightarrow>
      available_topics (strategy s) = ''General content topics'') \<and>
   ((case trends s of None \<Rightarrow> True | Some t \<Rightarrow> top_keywords t = []) \<longrightarrow>
      trending_keywords (trends s) = ''General industry keywords'')"
proof -
  have strat_text:
    "strategy_input (profile s) (trends s) =
        nl @ indent @ ''Company: '' @ company_name (profile s) @
        nl @ indent @ ''Industry: '' @ industry (profile s) @
        nl @ indent @ ''Business Objectives: '' @ join '', '' (business_objectives (profile s)) @
        nl @
        nl @ indent @ ''Available Trends:'' @
        nl @ indent @ ''No specific trends found'' @
        nl @
        nl @ indent @ ''Create a weekly content strategy addressing audience pain points: '' @
          join '', '' (pain_points (target_audience (profile s))) @
        nl @ indent"
    if absent: "case trends s of None \<Rightarrow> True | Some t \<Rightarrow> trending_topics t = []"
    unfolding strategy_input_def available_trends_absent [OF absent] by (rule refl)
  have brief_strategy_absent:
    "brief_input (profile s) (strategy s) (trends s) =
        nl @ indent @ ''Company: '' @ company_name (profile s) @
        nl @ indent @ ''Target Audience: '' @ name (target_audience (profile s)) @
        nl @ indent @ ''Brand Voice: '' @ brand_voice (profile s) @
        nl @
        nl @ indent @ ''Strategy Focus: '' @ ''General content strategy'' @
        nl @
        nl @ indent @ ''Available Topics:'' @
        nl @ indent @ ''General content topics'' @
        nl @
        nl @ indent @ ''Trending Keywords:'' @
        nl @ indent @ trending_keywords (trends s) @
        nl @
        nl @ indent @ ''Generate '' @ str_int (posting_frequency_target (profile s)) @
          '' detailed content briefs for this week.'' @
        nl @ indent"
    if none: "strategy s = None"
  proof -
    have t: "available_topics (strategy s) = ''General content topics''"
      by (rule available_topics_absent) (simp add: none)
    have f: "strategy_focus (strategy s) = ''General content strategy''"
      by (simp add: none strategy_focus_absent)
    show ?thesis
      unfolding brief_input_def t f by (rule refl)
  qed
  have brief_trends_absent:
    "brief_input (profile s) (strategy s) (trends s) =
        nl @ indent @ ''Company: '' @ company_name (profile s) @
        nl @ indent @ ''Target Audience: '' @ name (target_audience (profile s)) @
        nl @ indent @ ''Brand Voice: '' @ brand_voice (profile s) @
        nl @
        nl @ indent @ ''Strategy Focus: '' @ strategy_focus (strategy s) @
        nl @
        nl @ indent @ ''Available Topics:'' @
        nl @ indent @ available_topics (strategy s) @
        nl @
        nl @ indent @ ''Trending Keywords:'' @
        nl @ indent @ ''General industry keywords'' @
        nl @
        nl @ indent @ ''Generate '' @ str_int (posting_frequency_target (profile s)) @
          '' detailed content briefs for this week.'' @
        nl @ indent"
    if none: "trends s = None"
  proof -
    have k: "trending_keywords (trends s) = ''General industry keywords''"
      by (rule trending_keywords_absent) (simp add: none)
    show ?thesis
      unfolding brief_input_def k by (rule refl)
  qed
  have c1: "(case trends s of None \<Rightarrow> True | Some t \<Rightarrow> trending_topics t = []) \<longrightarrow>
      available_trends (trends s) = ''No specific trends found'' \<and>
      strategy_input (profile s) (trends s) =
        nl @ indent @ ''Company: '' @ company_name (profile s) @
        nl @ indent @ ''Industry: '' @ industry (profile s) @
        nl @ indent @ ''Business Objectives: '' @ join '', '' (business_objectives (profile s)) @
        nl @
        nl @ indent @ ''Available Trends:'' @
        nl @ indent @ ''No specific trends found'' @
        nl @
        nl @ indent @ ''Create a weekly content strategy addressing audience pain points: '' @
          join '', '' (pain_points (target_audience (profile s))) @
        nl @ indent"
    using strat_text available_trends_absent by blast
  have c2: "\<forall>c. run (create_content_strategy_agent (profile s))
            (strategy_input (profile s) (trends s)) = Returned (StrategyOut c) \<longrightarrow>
        content_strategy_node run s =
          s\<lparr>strategy := Some c, current_step := ''content_strategy_done''\<rparr>"
    by (blast intro: content_strategy_node_returned)
  have c3: "strategy s = None \<longrightarrow>
      strategy_focus (strategy s) = ''General content strategy'' \<and>
      available_topics (strategy s) = ''General content topics''"
    by (simp add: strategy_focus_def available_topics_def)
  have c4: "trends s = None \<longrightarrow> trending_keywords (trends s) = ''General industry keywords''"
    by (simp add: trending_keywords_def)
  have c5: "\<forall>b. run (create_brief_generation_agent (profile s))
            (brief_input (profile s) (strategy s) (trends s)) = Returned (BriefOut b) \<longrightarrow>
        brief_generation_node run s =
          s\<lparr>briefs := Some (truncate_meta_descriptions b),
            current_step := ''brief_generation_done''\<rparr>"
    by (blast intro: brief_generation_node_returned)
  have c6: "(case trends s of None \<Rightarrow> True | Some t \<Rightarrow> trending_topics t = []) \<longrightarrow>
      (\<forall>c. run (create_content_strategy_agent (profile s))
             (nl @ indent @ ''Company: '' @ company_name (profile s) @
              nl @ indent @ ''Industry: '' @ industry (profile s) @
              nl @ indent @ ''Business Objectives: '' @
                join '', '' (business_objectives (profile s)) @
              nl @
              nl @ indent @ ''Available Trends:'' @
              nl @ indent @ ''No specific trends found'' @
              nl @
              nl @ indent @
                ''Create a weekly content strategy addressing audience pain points: '' @
                join '', '' (pain_points (target_audience (profile s))) @
              nl @ indent) = Returned (StrategyOut c) \<longrightarrow>
           content_strategy_node run s =
             s\<lparr>strategy := Some c, current_step := ''content_strategy_done''\<rparr>)"
  proof (intro impI allI)
    fix c
    assume absent: "case trends s of None \<Rightarrow> True | Some t \<Rightarrow> trending_topics t = []"
    assume "run (create_content_strategy_agent (profile s))
             (nl @ indent @ ''Company: '' @ company_name (profile s) @
              nl @ indent @ ''Industry: '' @ industry (profile s) @
              nl @ indent @ ''Business Objectives: '' @
                join '', '' (business_objectives (profile s)) @
              nl @
              nl @ indent @ ''Available Trends:'' @
              nl @ indent @ ''No specific trends found'' @
              nl @
              nl @ indent @
                ''Create a weekly content strategy addressing audience pain points: '' @
                join '', '' (pain_points (target_audience (profile s))) @
              nl @ indent) = Returned (StrategyOut c)"
    then have "run (create_content_strategy_agent (profile s))
            (strategy_input (profile s) (trends s)) = Returned (StrategyOut c)"
      unfolding strat_text [OF absent] .
    then show "content_strategy_node run s =
             s\<lparr>strategy := Some c, current_step := ''content_strategy_done''\<rparr>"
      by (rule content_strategy_node_returned)
  qed
  have c7: "strategy s = None \<longrightarrow>
      brief_input (profile s) (strategy s) (trends s) =
        nl @ indent @ ''Company: '' @ company_name (profile s) @
        nl @ indent @ ''Target Audience: '' @ name (target_audience (profile s)) @
        nl @ indent @ ''Brand Voice: '' @ brand_voice (profile s) @
        nl @
        nl @ indent @ ''Strategy Focus: '' @ ''General content strategy'' @
        nl @
        nl @ indent @ ''Available Topics:'' @
        nl @ indent @ ''General content topics'' @
        nl @
        nl @ indent @ ''Trending Keywords:'' @
        nl @ indent @ trending_keywords (trends s) @
        nl @
        nl @ indent @ ''Generate '' @ str_int (posting_frequency_target (profile s)) @
          '' detailed content briefs for this week.'' @
        nl @ indent"
    using brief_strategy_absent by blast
  have c8: "trends s = None \<longrightarrow>
      brief_input (profile s) (strategy s) (trends s) =
        nl @ indent @ ''Company: '' @ company_name (profile s) @
        nl @ indent @ ''Target Audience: '' @ name (target_audience (profile s)) @
        nl @ indent @ ''Brand Voice: '' @ brand_voice (profile s) @
        nl @
        nl @ indent @ ''Strategy Focus: '' @ strategy_focus (strategy s) @
        nl @
        nl @ indent @ ''Available Topics:'' @
        nl @ indent @ available_topics (strategy s) @
        nl @
        nl @ indent @ ''Trending Keywords:'' @
        nl @ indent @ ''General industry keywords'' @
        nl @
        nl @ indent @ ''Generate '' @ str_int (posting_frequency_target (profile s)) @
          '' detailed content briefs for this week.'' @
        nl @ indent"
    using brief_trends_absent by blast
  have c9: "strategy s = None \<and> trends s = None \<longrightarrow>
      (\<forall>b. run (create_brief_generation_agent (profile s))
             (nl @ indent @ ''Company: '' @ company_name (profile s) @
              nl @ indent @ ''Target Audience: '' @ name (target_audience (profile s)) @
              nl @ indent @ ''Brand Voice: '' @ brand_voice (profile s) @
              nl @
              nl @ indent @ ''Strategy Focus: '' @ ''General content strategy'' @
              nl @
              nl @ indent @ ''Available Topics:'' @
              nl @ indent @ ''General content topics'' @
              nl @
              nl @ indent @ ''Trending Keywords:'' @
              nl @ indent @ ''General industry keywords'' @
              nl @
              nl @ indent @ ''Generate '' @ str_int (posting_frequency_target (profile s)) @
                '' detailed content briefs for this week.'' @
              nl @ indent) = Returned (BriefOut b) \<longrightarrow>
           brief_generation_node run s =
             s\<lparr>briefs := Some (truncate_meta_descriptions b),
               current_step := ''brief_generation_done''\<rparr>)"
  proof (intro impI allI)
    fix b
    assume both: "strategy s = None \<and> trends s = None"
    then have k: "trending_keywords (trends s) = ''General industry keywords''"
      by (simp add: trending_keywords_def)
    assume "run (create_brief_generation_agent (profile s))
             (nl @ indent @ ''Company: '' @ company_name (profile s) @
              nl @ indent @ ''Target Audience: '' @ name (target_audience (profile s)) @
              nl @ indent @ ''Brand Voice: '' @ brand_voice (profile s) @
              nl @
              nl @ indent @ ''Strategy Focus: '' @ ''General content strategy'' @
              nl @
              nl @ indent @ ''Available Topics:'' @
              nl @ indent @ ''General content topics'' @
              nl @
              nl @ indent @ ''Trending Keywords:'' @
              nl @ indent @ ''General industry keywords'' @
              nl @
              nl @ indent @ ''Generate '' @ str_int (posting_frequency_target (profile s)) @
                '' detailed content briefs for this week.'' @
              nl @ indent) = Returned (BriefOut b)"
    then have "run (create_brief_generation_agent (profile s))
            (brief_input (profile s) (strategy s) (trends s)) = Returned (BriefOut b)"
      unfolding brief_strategy_absent [OF both [THEN conjunct1]] k .
    then show "brief_generation_node run s =
             s\<lparr>briefs := Some (truncate_meta_descriptions b),
               current_step := ''brief_generation_done''\<rparr>"
      by (rule brief_generation_node_returned)
  qed
  have c10: "(case strategy s of None \<Rightarrow> True | Some c \<Rightarrow> recommended_content_pieces c = []) \<longrightarrow>
      available_topics (strategy s) = ''General content topics''"
    using available_topics_absent by blast
  have c11: "(case trends s of None \<Rightarrow> True | Some t \<Rightarrow> top_keywords t = []) \<longrightarrow>
      trending_keywords (trends s) = ''General industry keywords''"
    using trending_keywords_absent by blast
  from c1 c2 c3 c4 c5 c6 c7 c8 c9 c10 c11 show ?thesis
    by (intro conjI)
qed

theorem placeholder_substitution_witness:
  "trends (initial_state example_profile) = None \<and>
   strategy (initial_state example_profile) = None \<and>
   available_trends (trends (initial_state example_profile)) = ''No specific trends found'' \<and>
   strategy_input (profile (initial_state example_profile))
       (trends (initial_state example_profile)) =
     nl @ indent @ ''Company: TestCo'' @
     nl @ indent @ ''Industry: AI'' @
     nl @ indent @ ''Business Objectives: thought_leadership, engagement'' @
     nl @
     nl @ indent @ ''Available Trends:'' @
     nl @ indent @ ''No specific trends found'' @
     nl @
     nl @ indent @
       ''Create a weekly content strategy addressing audience pain points: scaling AI apps'' @
     nl @ indent \<and>
   brief_input (profile (initial_state example_profile))
       (strategy (initial_state example_profile)) (trends (initial_state example_profile)) =
     nl @ indent @ ''Company: TestCo'' @
     nl @ indent @ ''Target Audience: Developers'' @
     nl @ indent @ ''Brand Voice: professional but approachable'' @
     nl @
     nl @ indent @ ''Strategy Focus: General content strategy'' @
     nl @
     nl @ indent @ ''Available Topics:'' @
     nl @ indent @ ''General content topics'' @
     nl @
     nl @ indent @ ''Trending Keywords:'' @
     nl @ indent @ ''General industry keywords'' @
     nl @
     nl @ indent @ ''Generate 3 detailed content briefs for this week.'' @
     nl @ indent \<and>
   strategy (content_strategy_node
      (trend_failing_run (example_strategy (example_mix 40 30 20 10)) (example_briefs [''short'']))
      (initial_state example_profile)) = Some (example_strategy (example_mix 40 30 20 10)) \<and>
   current_step (brief_generation_node
      (trend_failing_run (example_strategy (example_mix 40 30 20 10)) (example_briefs [''short'']))
      (initial_state example_profile)) = ''brief_generation_done''"
  using placeholder_substitution
    [of "initial_state example_profile"
        "trend_failing_run (example_strategy (example_mix 40 30 20 10)) (example_briefs [''short''])"]
  by (simp add: initial_state_fields trend_failing_run_strategy_agent trend_failing_run_brief_agent
        example_profile_fields trending_keywords_def)

section \<open>Scores and percentages\<close>

text \<open>
  Claim C7, as stated, fails: a topic whose composite is 10 and whose sub-scores are
  40, 30, 20 and 10 satisfies the schema, and the trend research stage stores the output
  that holds it; the sub-scores sum to 100, not to 10, and the composite is below 60.
\<close>

theorem topic_scores_counterexample:
  "valid_TrendResearchOutput (example_trends [example_topic 10 40 30 20 10]) \<and>
   trends (trend_research_node
             (stub_run (example_trends [example_topic 10 40 30 20 10])
                (example_strategy (example_mix 40 30 20 10)) (example_briefs [''short'']))
             (initial_state example_profile)) =
     Some (example_trends [example_topic 10 40 30 20 10]) \<and>
   subscore_sum (example_topic 10 40 30 20 10) = 100 \<and>
   trend_score (example_topic 10 40 30 20 10) = 10 \<and>
   \<not> 60 \<le> trend_score (example_topic 10 40 30 20 10)"
  by (simp add: example_trends_valid example_topic_valid example_topic_scores
        trend_research_node_returned stub_run_trend_agent)

text \<open>
  Claim C7, amended. Every topic of a schema-valid \<open>TrendResearchOutput\<close> has a
  composite in [0,100] and sub-scores within their bounds (at most 40, 30, 20 and 10,
  none negative), so their sum lies in [0,100] too; the stage stores the output as the
  agent returned it. Neither the equality of the sum with the composite nor the
  threshold 60 is checked.
\<close>

theorem accepted_topic_bounds:
  assumes valid: "valid_TrendResearchOutput r"
    and mem: "t \<in> set (trending_topics r)"
  shows "0 \<le> trend_score t \<and> trend_score t \<le> 100 \<and>
         0 \<le> business_relevance_score t \<and> business_relevance_score t \<le> 40 \<and>
         0 \<le> audience_interest_score t \<and> audience_interest_score t \<le> 30 \<and>
         0 \<le> content_opportunity_score t \<and> content_opportunity_score t \<le> 20 \<and>
         0 \<le> trend_momentum_score t \<and> trend_momentum_score t \<le> 10 \<and>
         0 \<le> subscore_sum t \<and> subscore_sum t \<le> 100 \<and>
         trends (trend_research_node (\<lambda>agent prompt. Returned (TrendOut r)) s) = Some r"
proof -
  from valid have "list_all valid_TrendingTopic (trending_topics r)"
    by (simp add: valid_TrendResearchOutput_def)
  with mem have t: "valid_TrendingTopic t"
    by (simp add: list_all_iff)
  have stored: "trends (trend_research_node (\<lambda>agent prompt. Returned (TrendOut r)) s) = Some r"
    by (simp add: trend_research_node_returned)
  from t have sum: "0 \<le> subscore_sum t \<and> subscore_sum t \<le> 100"
    by (simp add: valid_TrendingTopic_def subscore_sum_def)
  from t sum stored show ?thesis
    by (simp add: valid_TrendingTopic_def)
qed

theorem accepted_topic_bounds_witness:
  "valid_TrendResearchOutput (example_trends [example_topic 10 40 30 20 10]) \<and>
   example_topic 10 40 30 20 10 \<in> set (trending_topics (example_trends [example_topic 10 40 30 20 10])) \<and>
   subscore_sum (example_topic 10 40 30 20 10) \<le> 100 \<and>
   trend_score (example_topic 10 40 30 20 10) \<le> 100"
proof -
  have v: "valid_TrendResearchOutput (example_trends [example_topic 10 40 30 20 10])"
    by (simp add: example_trends_valid example_topic_valid)
  have m: "example_topic 10 40 30 20 10 \<in> set (trending_topics (example_trends [example_topic 10 40 30 20 10]))"
    by (simp add: example_trends_def)
  show ?thesis
    using v m accepted_topic_bounds [OF v m] by simp
qed

text \<open>
  Claim C8, evaluated at a content mix of four times 50: the output satisfies the schema,
  \<open>validate_total\<close> is false on it, and the content strategy stage stores it and advances
  the step label. \<open>validate_total\<close>, documented as ensuring that the percentages add up
  to 100, is called nowhere.
\<close>

theorem content_mix_total_not_enforced:
  "valid_ContentStrategyOutput (example_strategy (example_mix 50 50 50 50)) \<and>
   \<not> validate_total (content_mix (content_strategy (example_strategy (example_mix 50 50 50 50)))) \<and>
   content_strategy_node
     (stub_run (example_trends []) (example_strategy (example_mix 50 50 50 50))
        (example_briefs [''short'']))
     (initial_state example_profile) =
     (initial_state example_profile)
       \<lparr>strategy := Some (example_strategy (example_mix 50 50 50 50)),
        current_step := ''content_strategy_done''\<rparr>"
proof -
  have valid: "valid_ContentStrategyOutput (example_strategy (example_mix 50 50 50 50))"
    by (simp add: example_strategy_valid valid_ContentMix_def example_mix_def)
  have total: "\<not> validate_total
      (content_mix (content_strategy (example_strategy (example_mix 50 50 50 50))))"
    by (simp add: validate_total_def example_mix_def example_strategy_def)
  have stored: "content_strategy_node
     (stub_run (example_trends []) (example_strategy (example_mix 50 50 50 50))
        (example_briefs [''short'']))
     (initial_state example_profile) =
     (initial_state example_profile)
       \<lparr>strategy := Some (example_strategy (example_mix 50 50 50 50)),
        current_step := ''content_strategy_done''\<rparr>"
    by (rule content_strategy_node_returned) (rule stub_run_strategy_agent)
  from valid total stored show ?thesis by blast
qed

section \<open>Retry budgets\<close>

lemma trend_run_default_1:
  "agent_run_with 1 trend_responses (create_trend_research_agent p) q =
     Raised ''Exceeded maximum retries for output validation''"
  by (simp add: agent_run_with_def trend_responses_def retry_budget_def
        create_trend_research_agent_def conforms_to_def example_trends_valid example_topic_valid)

lemma brief_run_default_1:
  "agent_run_with 1 brief_responses (create_brief_generation_agent p) q =
     Returned (BriefOut (example_briefs [''short'']))"
  by (simp add: agent_run_with_def brief_responses_def retry_budget_def
        create_brief_generation_agent_def conforms_to_def example_briefs_valid_iff
        numeral_3_eq_3)

text \<open>
  Claim C6, evaluated. Only \<open>create_brief_generation_agent\<close> passes \<open>output_retries=3\<close>;
  the other two constructors pass none, so their budget is the library default \<open>d\<close>.
  With a default of one retry and two non-conforming answers before a conforming one,
  trend research fails, while brief generation, under its own budget of 3, succeeds on
  the same pattern of answers.
\<close>

theorem retry_budget_only_for_briefs:
  "output_retries (create_trend_research_agent p) = None \<and>
   output_retries (create_content_strategy_agent p) = None \<and>
   output_retries (create_brief_generation_agent p) = Some 3 \<and>
   retry_budget d (create_trend_research_agent p) = d \<and>
   retry_budget d (create_content_strategy_agent p) = d \<and>
   retry_budget d (create_brief_generation_agent p) = 3 \<and>
   trend_research_node (agent_run_with 1 trend_responses) (initial_state example_profile) =
     (initial_state example_profile)
       \<lparr>error := Some ''Trend Research Failed: Exceeded maximum retries for output validation''\<rparr> \<and>
   brief_generation_node (agent_run_with 1 brief_responses) (initial_state example_profile) =
     (initial_state example_profile)
       \<lparr>briefs := Some (example_briefs [''short'']),
        current_step := ''brief_generation_done''\<rparr>"
proof -
  have cfg: "output_retries (create_trend_research_agent p) = None"
    "output_retries (create_content_strategy_agent p) = None"
    "output_retries (create_brief_generation_agent p) = Some 3"
    by (simp_all add: create_trend_research_agent_def create_content_strategy_agent_def
          create_brief_generation_agent_def)
  have trend: "trend_research_node (agent_run_with 1 trend_responses) (initial_state example_profile) =
     (initial_state example_profile)
       \<lparr>error := Some ''Trend Research Failed: Exceeded maximum retries for output validation''\<rparr>"
    unfolding trend_research_node_def trend_research_try_def Let_def trend_run_default_1
    by simp
  have valid: "valid_BriefGenerationOutput (example_briefs [''short''])"
    by (simp add: example_briefs_valid_iff)
  have same: "truncate_meta_descriptions (example_briefs [''short'']) = example_briefs [''short'']"
    by (simp add: truncate_meta_descriptions_def example_briefs_def truncate_brief_def
          example_brief_def)
  have brief: "brief_generation_node (agent_run_with 1 brief_responses) (initial_state example_profile) =
     (initial_state example_profile)
       \<lparr>briefs := Some (example_briefs [''short'']),
        current_step := ''brief_generation_done''\<rparr>"
  proof -
    have "brief_generation_node (agent_run_with 1 brief_responses) (initial_state example_profile) =
      (initial_state example_profile)
        \<lparr>briefs := Some (truncate_meta_descriptions (example_briefs [''short''])),
         current_step := ''brief_generation_done''\<rparr>"
      by (rule brief_generation_node_returned) (rule brief_run_default_1)
    then show ?thesis
      unfolding same .
  qed
  from cfg trend brief show ?thesis
    by (simp add: retry_budget_def)
qed

end
